theory Spec2Isabelle
  imports Complex_Main
begin

section \<open>Worker documents (models/Worker.js)\<close>

text \<open>
  The schema of \<^verbatim>\<open>models/Worker.js\<close> declares seven paths:
  \<^verbatim>\<open>id: { type: Number, required: false, unique: true }\<close>, four \<^verbatim>\<open>String\<close> paths,
  \<^verbatim>\<open>permitVisaExpiry: Date\<close> and \<^verbatim>\<open>RMPaid: Number\<close>. Every document also has the
  identity key \<^verbatim>\<open>_id\<close>. A stored path is unset, null, or holds a value of the path's type.
  An ObjectId is an opaque key (a natural number here), a date is its epoch time, a number
  is a rational (no handler computes with it; the rounding of a literal to a double is left
  out). The field \<open>oid\<close> is the path \<^verbatim>\<open>_id\<close> and \<open>idN\<close> is the path \<^verbatim>\<open>id\<close>. The
  version key \<^verbatim>\<open>__v\<close> is constant in every handler and left out.

  The type of \<^verbatim>\<open>_id\<close> is a parameter of the record. A stored document (\<open>worker\<close>) has
  an ObjectId. A document in memory, made by \<^verbatim>\<open>new Worker\<close> and not yet written
  (\<open>unsaved\<close>), has an ObjectId or \<^verbatim>\<open>null\<close>: \<^verbatim>\<open>new Worker({ _id: null })\<close> keeps the
  null, and validation accepts it.
\<close>

type_synonym objectid = nat
type_synonym date = int
type_synonym number = rat

datatype 'a slot = Unset | Null | Val 'a

record 'k document =
  oid :: 'k
  idN :: "number slot"
  name :: "string slot"
  phoneNumber :: "string slot"
  status :: "string slot"
  passportNumber :: "string slot"
  permitVisaExpiry :: "date slot"
  RMPaid :: "number slot"

type_synonym worker = "objectid document"

type_synonym unsaved = "objectid option document"

text \<open>The same paths under another \<^verbatim>\<open>_id\<close>.\<close>

definition rekey :: "'b \<Rightarrow> 'a document \<Rightarrow> 'b document" where
  "rekey k m = \<lparr>oid = k, idN = idN m, name = name m, phoneNumber = phoneNumber m,
     status = status m, passportNumber = passportNumber m,
     permitVisaExpiry = permitVisaExpiry m, RMPaid = RMPaid m\<rparr>"

section \<open>Errors\<close>

text \<open>
  The errors a store call rejects with, and the text of \<^verbatim>\<open>error.message\<close>. The wording
  stands for the library's, and so does the order in which a message lists several failed
  paths; a \<open>StoreError\<close> passes its message through.
\<close>

datatype error =
    CastError string string
  | ValidationError "(string \<times> string) list"
  | DuplicateKey string
  | ImmutableField string
  | StoreError string

fun cast_text :: "string \<times> string \<Rightarrow> string" where
  "cast_text (p, v) = p @ '': Cast failed for value '' @ v @ ''; ''"

fun message :: "error \<Rightarrow> string" where
  "message (CastError p v) = ''Cast failed for value '' @ v @ '' at path '' @ p"
| "message (ValidationError ps) = ''Worker validation failed: '' @ concat (map cast_text ps)"
| "message (DuplicateKey ix) = ''E11000 duplicate key error index: '' @ ix"
| "message (ImmutableField p) = ''Update would modify the immutable field '' @ p"
| "message (StoreError m) = m"

section \<open>Requests\<close>

text \<open>
  What a request carries for one schema path, seen through the schema's cast of that path
  (the cast functions belong to Mongoose, not to this repository): the key is missing
  (\<^verbatim>\<open>undefined\<close>), it is \<^verbatim>\<open>null\<close>, its value casts to the path's type, or the cast
  fails; \<open>Uncastable\<close> keeps the raw text for the error message. A JSON body, an element
  of a bulk body and the object given to \<^verbatim>\<open>new Worker\<close> or to an update are all such
  field sets. \<open>f_other\<close> lists the other keys that are not schema paths; strict mode
  drops them.

  A body may also carry update operators, keys that start with \<^verbatim>\<open>$\<close> (\<^verbatim>\<open>$inc\<close>,
  \<^verbatim>\<open>$unset\<close>, \<^verbatim>\<open>$set\<close>, ...). \<^verbatim>\<open>new Worker\<close> drops them like any key outside the
  schema, an update passes them to the store, which executes them. Like the casts they
  belong to the library, and the request carries them as what they do: \<open>f_ops\<close> takes the
  document on which the top-level paths of the update have been set and gives the document
  the store ends with, or the error the update is rejected with (a failed cast inside an
  operator, two operators on one path, an operator its path does not admit). A body without
  operators has \<open>f_ops = Inr\<close>.
\<close>

datatype 'a arg = Undefined | JsonNull | Castable 'a | Uncastable string

record fieldset =
  f_oid :: "objectid arg"
  f_id :: "number arg"
  f_name :: "string arg"
  f_phoneNumber :: "string arg"
  f_status :: "string arg"
  f_passportNumber :: "string arg"
  f_permitVisaExpiry :: "date arg"
  f_RMPaid :: "number arg"
  f_other :: "(string \<times> string) list"
  f_ops :: "worker \<Rightarrow> error + worker"

definition no_fields :: fieldset where
  "no_fields = \<lparr>f_oid = Undefined, f_id = Undefined, f_name = Undefined,
     f_phoneNumber = Undefined, f_status = Undefined, f_passportNumber = Undefined,
     f_permitVisaExpiry = Undefined, f_RMPaid = Undefined, f_other = [], f_ops = Inr\<rparr>"

text \<open>The path parameter \<^verbatim>\<open>:id\<close>: a string that casts to an ObjectId, or one that does not.\<close>

datatype param = Oid objectid | Malformed string

section \<open>Promises and responses\<close>

text \<open>An awaited store call resolves with a value or rejects with an error.\<close>

datatype 'a outcome = Resolved 'a | Rejected error

text \<open>
  A JSON body is \<^verbatim>\<open>null\<close>, a document with its ObjectId, a document whose \<^verbatim>\<open>_id\<close> is
  \<^verbatim>\<open>null\<close>, a list of stored documents, an array of bodies, or \<^verbatim>\<open>{ message }\<close>.

  What a handler leaves behind: a response (status and JSON body), or, when an awaited call
  rejects outside every \<^verbatim>\<open>try\<close>, the rejection of the handler's own promise: the
  handler has written no response, and what becomes of the request is left to the framework
  (Express 4 leaves it unanswered and the rejection unhandled).
\<close>

datatype payload =
    NullBody
  | Doc worker
  | DocNullId "unit document"
  | Docs "worker list"
  | Array "payload list"
  | Message string

datatype reply = Sent nat payload | Escaped error

section \<open>The document store behind the model\<close>

text \<open>
  The collection in insertion order, and the ObjectId generator. \<open>fault\<close> is the
  transport's answer to the one round trip of a request: \<open>None\<close> when the server answers,
  \<open>Some m\<close> when the call fails with message \<open>m\<close> (connection lost, timeout).
\<close>

record world =
  docs :: "worker list"
  next_oid :: objectid

type_synonym fault = "string option"

fun put :: "'a arg \<Rightarrow> 'a slot \<Rightarrow> 'a slot" where
  "put Undefined s = s"
| "put JsonNull s = Null"
| "put (Castable v) s = Val v"
| "put (Uncastable r) s = s"

fun bad :: "string \<Rightarrow> 'a arg \<Rightarrow> (string \<times> string) list" where
  "bad p (Uncastable r) = [(p, r)]"
| "bad p a = []"

definition cast_errors :: "fieldset \<Rightarrow> (string \<times> string) list" where
  "cast_errors obj =
     bad ''_id'' (f_oid obj) @ bad ''id'' (f_id obj) @ bad ''name'' (f_name obj) @
     bad ''phoneNumber'' (f_phoneNumber obj) @ bad ''status'' (f_status obj) @
     bad ''passportNumber'' (f_passportNumber obj) @
     bad ''permitVisaExpiry'' (f_permitVisaExpiry obj) @ bad ''RMPaid'' (f_RMPaid obj)"

text \<open>
  \<^verbatim>\<open>new Worker(obj)\<close>: the paths of the schema are cast and set, keys outside the schema
  are dropped (strict mode), a failed cast is remembered and reported by validation; the
  schema has no other validator. The identity key is generated unless \<open>obj\<close> has the key
  \<^verbatim>\<open>_id\<close>: a castable \<^verbatim>\<open>_id\<close> is taken, \<^verbatim>\<open>_id: null\<close> leaves the document with a
  null key, an uncastable \<^verbatim>\<open>_id\<close> is a failed cast (the document is then invalid, and its
  key is never stored nor sent).
\<close>

record draft =
  doc :: unsaved
  invalid :: "(string \<times> string) list"

definition validation_errors :: "fieldset \<Rightarrow> (string \<times> string) list" where
  "validation_errors obj = cast_errors obj"

definition new_Worker :: "fieldset \<Rightarrow> world \<Rightarrow> draft \<times> world" where
  "new_Worker obj w =
     (let (k, w') = (case f_oid obj of
                       Undefined \<Rightarrow> (Some (next_oid w), w\<lparr>next_oid := Suc (next_oid w)\<rparr>)
                     | Castable j \<Rightarrow> (Some j, w)
                     | JsonNull \<Rightarrow> (None, w)
                     | Uncastable r \<Rightarrow> (Some (next_oid w), w))
      in (\<lparr>doc = \<lparr>oid = k,
                   idN = put (f_id obj) Unset,
                   name = put (f_name obj) Unset,
                   phoneNumber = put (f_phoneNumber obj) Unset,
                   status = put (f_status obj) Unset,
                   passportNumber = put (f_passportNumber obj) Unset,
                   permitVisaExpiry = put (f_permitVisaExpiry obj) Unset,
                   RMPaid = put (f_RMPaid obj) Unset\<rparr>,
            invalid = validation_errors obj\<rparr>, w'))"

text \<open>
  What the driver sends for a document: a copy, with a generated key where \<^verbatim>\<open>_id\<close> is
  null (\<^verbatim>\<open>if (doc._id == null) doc._id = createPk()\<close>). The document in memory keeps
  its null.
\<close>

definition prepare_doc :: "unsaved \<Rightarrow> world \<Rightarrow> worker \<times> world" where
  "prepare_doc m w =
     (case oid m of
        Some i \<Rightarrow> (rekey i m, w)
      | None \<Rightarrow> (rekey (next_oid w) m, w\<lparr>next_oid := Suc (next_oid w)\<rparr>))"

fun prepare_docs :: "unsaved list \<Rightarrow> world \<Rightarrow> worker list \<times> world" where
  "prepare_docs [] w = ([], w)"
| "prepare_docs (m # ms) w =
     (let (p, w1) = prepare_doc m w;
          (ps, w2) = prepare_docs ms w1
      in (p # ps, w2))"

text \<open>
  The server's insert. \<^verbatim>\<open>_id\<close> is unique in every collection. \<^verbatim>\<open>unique: true\<close> on
  \<^verbatim>\<open>id\<close> declares a unique index, which Mongoose builds when the model is compiled; the
  index is not sparse, so a document with no \<^verbatim>\<open>id\<close> is indexed under null like one
  whose \<^verbatim>\<open>id\<close> is null, and a second such document is a duplicate key.
\<close>

fun index_key :: "'a slot \<Rightarrow> 'a option" where
  "index_key (Val v) = Some v"
| "index_key s = None"

definition insert_doc :: "worker \<Rightarrow> worker list \<Rightarrow> error + worker list" where
  "insert_doc d ds =
     (if oid d \<in> set (map oid ds) then Inl (DuplicateKey ''_id_'')
      else if index_key (idN d) \<in> set (map (\<lambda>e. index_key (idN e)) ds)
        then Inl (DuplicateKey ''id_1'')
      else Inr (ds @ [d]))"

text \<open>An ordered bulk insert stops at the first write error and keeps what it wrote.\<close>

fun insert_ordered :: "worker list \<Rightarrow> worker list \<Rightarrow> error option \<times> worker list" where
  "insert_ordered [] ds = (None, ds)"
| "insert_ordered (d # rest) ds =
     (case insert_doc d ds of
        Inl e \<Rightarrow> (Some e, ds)
      | Inr ds' \<Rightarrow> insert_ordered rest ds')"

text \<open>\<^verbatim>\<open>worker.save()\<close> of a new document: validation, then one insert.\<close>

definition save :: "draft \<Rightarrow> fault \<Rightarrow> world \<Rightarrow> unit outcome \<times> world" where
  "save d f w =
     (if invalid d \<noteq> [] then (Rejected (ValidationError (invalid d)), w)
      else case f of
        Some m \<Rightarrow> (Rejected (StoreError m), w)
      | None \<Rightarrow>
         (let (p, w1) = prepare_doc (doc d) w in
          case insert_doc p (docs w1) of
            Inl e \<Rightarrow> (Rejected e, w1)
          | Inr ds \<Rightarrow> (Resolved (), w1\<lparr>docs := ds\<rparr>)))"

text \<open>
  \<^verbatim>\<open>Worker.insertMany(docs)\<close>, ordered: every document is validated first and nothing
  is sent when one is invalid; an empty batch resolves at once, with no round trip; else
  one ordered bulk insert.
\<close>

definition Worker_insertMany :: "draft list \<Rightarrow> fault \<Rightarrow> world \<Rightarrow> unit outcome \<times> world" where
  "Worker_insertMany ds f w =
     (case List.find (\<lambda>d. invalid d \<noteq> []) ds of
        Some d \<Rightarrow> (Rejected (ValidationError (invalid d)), w)
      | None \<Rightarrow>
         (if ds = [] then (Resolved (), w)
          else case f of
            Some m \<Rightarrow> (Rejected (StoreError m), w)
          | None \<Rightarrow>
             (let (ps, w1) = prepare_docs (map doc ds) w in
              case insert_ordered ps (docs w1) of
                (Some e, stored) \<Rightarrow> (Rejected e, w1\<lparr>docs := stored\<rparr>)
              | (None, stored) \<Rightarrow> (Resolved (), w1\<lparr>docs := stored\<rparr>))))"

text \<open>The first document with a given identity key, as a query by \<^verbatim>\<open>_id\<close> finds it.\<close>

fun by_oid :: "objectid \<Rightarrow> worker list \<Rightarrow> worker option" where
  "by_oid i [] = None"
| "by_oid i (d # ds) = (if oid d = i then Some d else by_oid i ds)"

definition Worker_find :: "fault \<Rightarrow> world \<Rightarrow> worker list outcome \<times> world" where
  "Worker_find f w =
     (case f of
        Some m \<Rightarrow> (Rejected (StoreError m), w)
      | None \<Rightarrow> (Resolved (docs w), w))"

definition Worker_findById :: "param \<Rightarrow> fault \<Rightarrow> world \<Rightarrow> worker option outcome \<times> world" where
  "Worker_findById q f w =
     (case q of
        Malformed r \<Rightarrow> (Rejected (CastError ''_id'' r), w)
      | Oid i \<Rightarrow>
         (case f of
            Some m \<Rightarrow> (Rejected (StoreError m), w)
          | None \<Rightarrow> (Resolved (by_oid i (docs w)), w)))"

text \<open>
  The top-level schema paths of an update are a \<^verbatim>\<open>$set\<close>; a missing key leaves its path
  as it is. The update operators of the body act on the result (\<open>f_ops\<close>). A different
  \<^verbatim>\<open>_id\<close> is refused by the server (the field is immutable), a changed \<^verbatim>\<open>id\<close> must stay
  unique.
\<close>

definition apply_update :: "fieldset \<Rightarrow> worker \<Rightarrow> worker" where
  "apply_update u d =
     d\<lparr>idN := put (f_id u) (idN d),
       name := put (f_name u) (name d),
       phoneNumber := put (f_phoneNumber u) (phoneNumber d),
       status := put (f_status u) (status d),
       passportNumber := put (f_passportNumber u) (passportNumber d),
       permitVisaExpiry := put (f_permitVisaExpiry u) (permitVisaExpiry d),
       RMPaid := put (f_RMPaid u) (RMPaid d)\<rparr>"

fun changes_oid :: "objectid arg \<Rightarrow> objectid \<Rightarrow> bool" where
  "changes_oid Undefined i = False"
| "changes_oid (Castable j) i = (j \<noteq> i)"
| "changes_oid a i = True"

fun replace_first :: "objectid \<Rightarrow> worker \<Rightarrow> worker list \<Rightarrow> worker list" where
  "replace_first i d' [] = []"
| "replace_first i d' (d # ds) = (if oid d = i then d' # ds else d # replace_first i d' ds)"

fun delete_first :: "objectid \<Rightarrow> worker list \<Rightarrow> worker list" where
  "delete_first i [] = []"
| "delete_first i (d # ds) = (if oid d = i then ds else d # delete_first i ds)"

text \<open>\<^verbatim>\<open>Worker.findByIdAndUpdate(id, update, { new: true })\<close>: resolves with the updated document.\<close>

definition Worker_findByIdAndUpdate ::
  "param \<Rightarrow> fieldset \<Rightarrow> fault \<Rightarrow> world \<Rightarrow> worker option outcome \<times> world" where
  "Worker_findByIdAndUpdate q u f w =
     (case q of
        Malformed r \<Rightarrow> (Rejected (CastError ''_id'' r), w)
      | Oid i \<Rightarrow>
         (case cast_errors u of
            (p, r) # _ \<Rightarrow> (Rejected (CastError p r), w)
          | [] \<Rightarrow>
             (case f of
                Some m \<Rightarrow> (Rejected (StoreError m), w)
              | None \<Rightarrow>
                 (case by_oid i (docs w) of
                    None \<Rightarrow> (Resolved None, w)
                  | Some d \<Rightarrow>
                     (case f_ops u (apply_update u d) of
                        Inl e \<Rightarrow> (Rejected e, w)
                      | Inr d' \<Rightarrow>
                         if changes_oid (f_oid u) i \<or> oid d' \<noteq> i
                           then (Rejected (ImmutableField ''_id''), w)
                         else if index_key (idN d') \<noteq> index_key (idN d) \<and>
                                 index_key (idN d') \<in>
                                   set (map (\<lambda>e. index_key (idN e)) (delete_first i (docs w)))
                           then (Rejected (DuplicateKey ''id_1''), w)
                         else (Resolved (Some d'), w\<lparr>docs := replace_first i d' (docs w)\<rparr>))))))"

definition Worker_findByIdAndDelete ::
  "param \<Rightarrow> fault \<Rightarrow> world \<Rightarrow> worker option outcome \<times> world" where
  "Worker_findByIdAndDelete q f w =
     (case q of
        Malformed r \<Rightarrow> (Rejected (CastError ''_id'' r), w)
      | Oid i \<Rightarrow>
         (case f of
            Some m \<Rightarrow> (Rejected (StoreError m), w)
          | None \<Rightarrow>
             (case by_oid i (docs w) of
                None \<Rightarrow> (Resolved None, w)
              | Some d \<Rightarrow> (Resolved (Some d), w\<lparr>docs := delete_first i (docs w)\<rparr>))))"

definition Worker_deleteMany :: "fault \<Rightarrow> world \<Rightarrow> unit outcome \<times> world" where
  "Worker_deleteMany f w =
     (case f of
        Some m \<Rightarrow> (Rejected (StoreError m), w)
      | None \<Rightarrow> (Resolved (), w\<lparr>docs := []\<rparr>))"

section \<open>The handlers (index.js)\<close>

text \<open>
  Each handler takes what it reads of the request, the fault of its round trip and the
  store, and returns its reply and the store it leaves. \<^verbatim>\<open>res.json\<close> without
  \<^verbatim>\<open>res.status\<close> answers 200; \<^verbatim>\<open>res.json(null)\<close> is the body \<open>NullBody\<close>. The
  \<^verbatim>\<open>console.log\<close> lines write no response and are left out.
\<close>

fun json :: "worker option \<Rightarrow> payload" where
  "json None = NullBody"
| "json (Some d) = Doc d"

text \<open>\<^verbatim>\<open>res.json\<close> of a document in memory.\<close>

definition json_doc :: "unsaved \<Rightarrow> payload" where
  "json_doc m = (case oid m of Some i \<Rightarrow> Doc (rekey i m) | None \<Rightarrow> DocNullId (rekey () m))"

text \<open>\<^verbatim>\<open>app.get("/workers")\<close>\<close>

definition get_workers :: "fault \<Rightarrow> world \<Rightarrow> reply \<times> world" where
  "get_workers f w =
     (case Worker_find f w of
        (Rejected e, w') \<Rightarrow> (Escaped e, w')
      | (Resolved workers, w') \<Rightarrow> (Sent 200 (Docs workers), w'))"

text \<open>\<^verbatim>\<open>app.get("/worker/:id")\<close>\<close>

definition get_worker :: "param \<Rightarrow> fault \<Rightarrow> world \<Rightarrow> reply \<times> world" where
  "get_worker q f w =
     (case Worker_findById q f w of
        (Rejected e, w') \<Rightarrow> (Escaped e, w')
      | (Resolved worker, w') \<Rightarrow> (Sent 200 (json worker), w'))"

text \<open>\<^verbatim>\<open>app.put("/worker/:id/updateRMPaid")\<close>: the update is \<^verbatim>\<open>{ RMPaid }\<close> alone.\<close>

definition put_worker_updateRMPaid :: "param \<Rightarrow> fieldset \<Rightarrow> fault \<Rightarrow> world \<Rightarrow> reply \<times> world" where
  "put_worker_updateRMPaid q body f w =
     (case Worker_findByIdAndUpdate q (no_fields\<lparr>f_RMPaid := f_RMPaid body\<rparr>) f w of
        (Rejected e, w') \<Rightarrow> (Escaped e, w')
      | (Resolved worker, w') \<Rightarrow> (Sent 200 (json worker), w'))"

text \<open>\<^verbatim>\<open>app.put("/worker/:id")\<close>: the update is the whole body.\<close>

definition put_worker :: "param \<Rightarrow> fieldset \<Rightarrow> fault \<Rightarrow> world \<Rightarrow> reply \<times> world" where
  "put_worker q body f w =
     (case Worker_findByIdAndUpdate q body f w of
        (Rejected e, w') \<Rightarrow> (Escaped e, w')
      | (Resolved worker, w') \<Rightarrow> (Sent 200 (json worker), w'))"

text \<open>\<^verbatim>\<open>app.post("/worker")\<close>: six keys of the body, then \<^verbatim>\<open>save\<close> inside \<^verbatim>\<open>try\<close>.\<close>

definition six_fields :: "fieldset \<Rightarrow> fieldset" where
  "six_fields body =
     no_fields\<lparr>f_name := f_name body,
               f_phoneNumber := f_phoneNumber body,
               f_status := f_status body,
               f_passportNumber := f_passportNumber body,
               f_permitVisaExpiry := f_permitVisaExpiry body,
               f_RMPaid := f_RMPaid body\<rparr>"

definition post_worker :: "fieldset \<Rightarrow> fault \<Rightarrow> world \<Rightarrow> reply \<times> world" where
  "post_worker body f w =
     (let (worker, w1) = new_Worker (six_fields body) w in
      case save worker f w1 of
        (Resolved _, w2) \<Rightarrow> (Sent 201 (json_doc (doc worker)), w2)
      | (Rejected e, w2) \<Rightarrow> (Sent 400 (Message (message e)), w2))"

text \<open>\<^verbatim>\<open>app.post("/workers")\<close>: \<^verbatim>\<open>req.body.map((worker) => new Worker(worker))\<close>, then \<^verbatim>\<open>insertMany\<close> inside \<^verbatim>\<open>try\<close>.\<close>

fun new_Workers :: "fieldset list \<Rightarrow> world \<Rightarrow> draft list \<times> world" where
  "new_Workers [] w = ([], w)"
| "new_Workers (obj # objs) w =
     (let (d, w1) = new_Worker obj w;
          (ds, w2) = new_Workers objs w1
      in (d # ds, w2))"

definition post_workers :: "fieldset list \<Rightarrow> fault \<Rightarrow> world \<Rightarrow> reply \<times> world" where
  "post_workers body f w =
     (let (workers, w1) = new_Workers body w in
      case Worker_insertMany workers f w1 of
        (Resolved _, w2) \<Rightarrow> (Sent 201 (Array (map (\<lambda>d. json_doc (doc d)) workers)), w2)
      | (Rejected e, w2) \<Rightarrow> (Sent 400 (Message (message e)), w2))"

text \<open>\<^verbatim>\<open>app.delete("/worker/:id")\<close>\<close>

definition delete_worker :: "param \<Rightarrow> fault \<Rightarrow> world \<Rightarrow> reply \<times> world" where
  "delete_worker q f w =
     (case Worker_findByIdAndDelete q f w of
        (Rejected e, w') \<Rightarrow> (Sent 400 (Message (message e)), w')
      | (Resolved None, w') \<Rightarrow> (Sent 404 (Message ''Worker not found''), w')
      | (Resolved (Some worker), w') \<Rightarrow> (Sent 200 (Doc worker), w'))"

text \<open>\<^verbatim>\<open>app.delete("/workers")\<close>\<close>

definition delete_workers :: "fault \<Rightarrow> world \<Rightarrow> reply \<times> world" where
  "delete_workers f w =
     (case Worker_deleteMany f w of
        (Rejected e, w') \<Rightarrow> (Escaped e, w')
      | (Resolved _, w') \<Rightarrow> (Sent 200 (Message ''All workers deleted''), w'))"

section \<open>Sample requests and stores\<close>

text \<open>
  The scenario of the specification: an empty store, the bodies
  \<^verbatim>\<open>{"name":"Ana","RMPaid":100}\<close> and \<^verbatim>\<open>{"name":"Bob"}\<close>, and the store that holds Ana's
  record under the first generated key.
\<close>

definition w0 :: world where
  "w0 = \<lparr>docs = [], next_oid = 0\<rparr>"

definition ana :: fieldset where
  "ana = no_fields\<lparr>f_name := Castable ''Ana'', f_RMPaid := Castable 100\<rparr>"

definition bob :: fieldset where
  "bob = no_fields\<lparr>f_name := Castable ''Bob''\<rparr>"

definition ana_doc :: worker where
  "ana_doc = \<lparr>oid = 0, idN = Unset, name = Val ''Ana'', phoneNumber = Unset, status = Unset,
     passportNumber = Unset, permitVisaExpiry = Unset, RMPaid = Val 100\<rparr>"

definition roster :: world where
  "roster = \<lparr>docs = [ana_doc], next_oid = 1\<rparr>"

text \<open>The bodies \<^verbatim>\<open>{"RMPaid":150}\<close> and \<^verbatim>\<open>{"status":"active","RMPaid":150}\<close>.\<close>

definition raise150 :: fieldset where
  "raise150 = no_fields\<lparr>f_RMPaid := Castable 150\<rparr>"

definition promote :: fieldset where
  "promote = no_fields\<lparr>f_status := Castable ''active'', f_RMPaid := Castable 150\<rparr>"

text \<open>
  The body \<^verbatim>\<open>{"status":"active","$inc":{"RMPaid":50}}\<close>. The operator adds to a number,
  sets a missing path and is refused on \<^verbatim>\<open>null\<close>.
\<close>

definition inc_RMPaid :: "number \<Rightarrow> worker \<Rightarrow> error + worker" where
  "inc_RMPaid n d =
     (case RMPaid d of
        Val x \<Rightarrow> Inr (d\<lparr>RMPaid := Val (x + n)\<rparr>)
      | Unset \<Rightarrow> Inr (d\<lparr>RMPaid := Val n\<rparr>)
      | Null \<Rightarrow> Inl (StoreError ''Cannot apply $inc to a value of non-numeric type''))"

definition bonus :: fieldset where
  "bonus = no_fields\<lparr>f_status := Castable ''active'', f_ops := inc_RMPaid 50\<rparr>"

text \<open>
  A body whose \<^verbatim>\<open>permitVisaExpiry\<close> is \<^verbatim>\<open>"not-a-date"\<close>, and Ana's body with a
  client-chosen \<^verbatim>\<open>_id\<close>, an \<^verbatim>\<open>id\<close> and a key outside the schema.
\<close>

definition undated :: fieldset where
  "undated = no_fields\<lparr>f_name := Castable ''Cy'', f_permitVisaExpiry := Uncastable ''not-a-date''\<rparr>"

text \<open>The body element \<^verbatim>\<open>{"_id":null,"id":3,"name":"Dee"}\<close>.\<close>

definition dee :: fieldset where
  "dee = no_fields\<lparr>f_oid := JsonNull, f_id := Castable 3, f_name := Castable ''Dee''\<rparr>"

definition ana_with_key :: fieldset where
  "ana_with_key = ana\<lparr>f_oid := Castable 42, f_id := Castable 7, f_other := [(''nationality'', ''PH'')]\<rparr>"

section \<open>A rejected call leaves the store as it was\<close>

lemma find_rejected:
  "fst (Worker_find f w) = Rejected e \<Longrightarrow> Worker_find f w = (Rejected e, w)"
  by (auto simp: Worker_find_def split: option.splits)

lemma findById_rejected:
  "fst (Worker_findById q f w) = Rejected e \<Longrightarrow> Worker_findById q f w = (Rejected e, w)"
  by (auto simp: Worker_findById_def split: param.splits option.splits)

lemma deleteMany_rejected:
  "fst (Worker_deleteMany f w) = Rejected e \<Longrightarrow> Worker_deleteMany f w = (Rejected e, w)"
  by (auto simp: Worker_deleteMany_def split: option.splits)

lemma findByIdAndDelete_rejected:
  "fst (Worker_findByIdAndDelete q f w) = Rejected e \<Longrightarrow>
   Worker_findByIdAndDelete q f w = (Rejected e, w)"
  by (auto simp: Worker_findByIdAndDelete_def split: param.splits option.splits)

lemma findByIdAndUpdate_rejected:
  "fst (Worker_findByIdAndUpdate q u f w) = Rejected e \<Longrightarrow>
   Worker_findByIdAndUpdate q u f w = (Rejected e, w)"
  by (auto simp: Worker_findByIdAndUpdate_def
           split: param.splits option.splits list.splits sum.splits if_splits)

section \<open>Delete by id\<close>

text \<open>
  C1. \<^verbatim>\<open>DELETE /worker/:id\<close>: when a record has the given key the response is 200 with
  that record, which leaves the store; when none has it the response is 404 with the
  message "Worker not found"; when the store call fails (an id that is no ObjectId, a
  failed round trip) the response is 400 with the error's message, and the store is as
  before.
\<close>

theorem delete_worker_responses:
  "(by_oid i (docs w) = Some d \<longrightarrow>
      delete_worker (Oid i) None w = (Sent 200 (Doc d), w\<lparr>docs := delete_first i (docs w)\<rparr>))
   \<and> (by_oid i (docs w) = None \<longrightarrow>
      delete_worker (Oid i) None w = (Sent 404 (Message ''Worker not found''), w))
   \<and> (fst (Worker_findByIdAndDelete q f w) = Rejected e \<longrightarrow>
      delete_worker q f w = (Sent 400 (Message (message e)), w))"
proof (intro conjI impI)
  assume "by_oid i (docs w) = Some d"
  then show "delete_worker (Oid i) None w
               = (Sent 200 (Doc d), w\<lparr>docs := delete_first i (docs w)\<rparr>)"
    by (simp add: delete_worker_def Worker_findByIdAndDelete_def)
next
  assume "by_oid i (docs w) = None"
  then show "delete_worker (Oid i) None w = (Sent 404 (Message ''Worker not found''), w)"
    by (simp add: delete_worker_def Worker_findByIdAndDelete_def)
next
  assume "fst (Worker_findByIdAndDelete q f w) = Rejected e"
  then have "Worker_findByIdAndDelete q f w = (Rejected e, w)"
    by (rule findByIdAndDelete_rejected)
  then show "delete_worker q f w = (Sent 400 (Message (message e)), w)"
    by (simp add: delete_worker_def)
qed

theorem delete_worker_responses_witness:
  "delete_worker (Oid 0) None roster = (Sent 200 (Doc ana_doc), \<lparr>docs = [], next_oid = 1\<rparr>)
   \<and> delete_worker (Oid 7) None roster = (Sent 404 (Message ''Worker not found''), roster)
   \<and> delete_worker (Oid 0) (Some ''connection lost'') roster
       = (Sent 400 (Message ''connection lost''), roster)
   \<and> delete_worker (Malformed ''abc'') None roster
       = (Sent 400 (Message ''Cast failed for value abc at path _id''), roster)"
proof -
  have a: "by_oid 0 (docs roster) = Some ana_doc"
    by (simp add: roster_def ana_doc_def)
  have b: "by_oid 7 (docs roster) = None"
    by (simp add: roster_def ana_doc_def)
  have c: "fst (Worker_findByIdAndDelete (Oid 0) (Some ''connection lost'') roster)
             = Rejected (StoreError ''connection lost'')"
    by (simp add: Worker_findByIdAndDelete_def)
  have d: "fst (Worker_findByIdAndDelete (Malformed ''abc'') None roster)
             = Rejected (CastError ''_id'' ''abc'')"
    by (simp add: Worker_findByIdAndDelete_def)
  from delete_worker_responses
         [of 0 roster ana_doc "Oid 0" "Some ''connection lost''" "StoreError ''connection lost''"]
       a c
  have 1: "delete_worker (Oid 0) None roster
             = (Sent 200 (Doc ana_doc), \<lparr>docs = [], next_oid = 1\<rparr>)"
    and 3: "delete_worker (Oid 0) (Some ''connection lost'') roster
             = (Sent 400 (Message ''connection lost''), roster)"
    by (simp_all add: roster_def ana_doc_def)
  from delete_worker_responses
         [of 7 roster ana_doc "Malformed ''abc''" None "CastError ''_id'' ''abc''"]
       b d
  have 2: "delete_worker (Oid 7) None roster = (Sent 404 (Message ''Worker not found''), roster)"
    and 4: "delete_worker (Malformed ''abc'') None roster
             = (Sent 400 (Message ''Cast failed for value abc at path _id''), roster)"
    by simp_all
  from 1 2 3 4 show ?thesis by simp
qed

section \<open>Get by id\<close>

text \<open>
  C2. The specification asks that \<^verbatim>\<open>GET /worker/:id\<close> surface "not found" for a key no
  record has. The handler sends what \<^verbatim>\<open>findById\<close> resolved with: for every store and every key
  that no record has, the response is status 200 with the body \<^verbatim>\<open>null\<close>. The sibling
  \<^verbatim>\<open>DELETE /worker/:id\<close> tests \<^verbatim>\<open>!worker\<close> and answers 404.
\<close>

theorem get_worker_unknown_id:
  "by_oid i (docs w) = None \<Longrightarrow>
   get_worker (Oid i) None w = (Sent 200 NullBody, w)"
  by (simp add: get_worker_def Worker_findById_def)

theorem get_worker_unknown_id_witness:
  "snd (delete_worker (Oid 0) None roster) = \<lparr>docs = [], next_oid = 1\<rparr>
   \<and> get_worker (Oid 0) None \<lparr>docs = [], next_oid = 1\<rparr>
       = (Sent 200 NullBody, \<lparr>docs = [], next_oid = 1\<rparr>)"
  using get_worker_unknown_id [of 0 "\<lparr>docs = [], next_oid = 1\<rparr>"]
  by (simp add: delete_worker_def Worker_findByIdAndDelete_def roster_def ana_doc_def)

section \<open>Store failures at the handler boundary\<close>

text \<open>
  C3. The specification asks that every failing store call be caught by its handler and
  turned into an HTTP error response. Five handlers await their store call outside any
  \<^verbatim>\<open>try\<close>: list all, get by id, both updates and delete all. Whenever their call
  rejects, the rejection leaves the handler, which has written no response and left the
  store as it was; only \<^verbatim>\<open>POST /worker\<close>, \<^verbatim>\<open>POST /workers\<close> and
  \<^verbatim>\<open>DELETE /worker/:id\<close> catch.
\<close>

theorem store_failure_escapes:
  "(fst (Worker_find f w) = Rejected e \<longrightarrow> get_workers f w = (Escaped e, w))
   \<and> (fst (Worker_findById q f w) = Rejected e \<longrightarrow> get_worker q f w = (Escaped e, w))
   \<and> (fst (Worker_findByIdAndUpdate q body f w) = Rejected e \<longrightarrow>
        put_worker q body f w = (Escaped e, w))
   \<and> (fst (Worker_findByIdAndUpdate q (no_fields\<lparr>f_RMPaid := f_RMPaid body\<rparr>) f w) = Rejected e
        \<longrightarrow> put_worker_updateRMPaid q body f w = (Escaped e, w))
   \<and> (fst (Worker_deleteMany f w) = Rejected e \<longrightarrow> delete_workers f w = (Escaped e, w))"
  by (auto simp: get_workers_def get_worker_def put_worker_def put_worker_updateRMPaid_def
        delete_workers_def
      dest!: find_rejected findById_rejected deleteMany_rejected findByIdAndUpdate_rejected)

theorem store_failure_escapes_witness:
  "get_workers (Some ''connection lost'') roster = (Escaped (StoreError ''connection lost''), roster)
   \<and> get_worker (Oid 0) (Some ''connection lost'') roster
       = (Escaped (StoreError ''connection lost''), roster)
   \<and> put_worker (Oid 0) ana (Some ''connection lost'') roster
       = (Escaped (StoreError ''connection lost''), roster)
   \<and> put_worker_updateRMPaid (Oid 0) ana (Some ''connection lost'') roster
       = (Escaped (StoreError ''connection lost''), roster)
   \<and> delete_workers (Some ''connection lost'') roster
       = (Escaped (StoreError ''connection lost''), roster)"
proof -
  have "fst (Worker_find (Some ''connection lost'') roster)
          = Rejected (StoreError ''connection lost'')"
    by (simp add: Worker_find_def)
  moreover have "fst (Worker_findById (Oid 0) (Some ''connection lost'') roster)
          = Rejected (StoreError ''connection lost'')"
    by (simp add: Worker_findById_def)
  moreover have "fst (Worker_findByIdAndUpdate (Oid 0) ana (Some ''connection lost'') roster)
          = Rejected (StoreError ''connection lost'')"
    by (simp add: Worker_findByIdAndUpdate_def cast_errors_def ana_def no_fields_def)
  moreover have "fst (Worker_findByIdAndUpdate (Oid 0) (no_fields\<lparr>f_RMPaid := f_RMPaid ana\<rparr>)
                        (Some ''connection lost'') roster)
          = Rejected (StoreError ''connection lost'')"
    by (simp add: Worker_findByIdAndUpdate_def cast_errors_def ana_def no_fields_def)
  moreover have "fst (Worker_deleteMany (Some ''connection lost'') roster)
          = Rejected (StoreError ''connection lost'')"
    by (simp add: Worker_deleteMany_def)
  ultimately show ?thesis
    using store_failure_escapes
            [of "Some ''connection lost''" roster "StoreError ''connection lost''" "Oid 0" ana]
    by simp
qed

section \<open>Delete all, then list\<close>

text \<open>
  C9. For every store, \<^verbatim>\<open>DELETE /workers\<close> answers 200 with the message
  "All workers deleted" and leaves an empty collection, and \<^verbatim>\<open>GET /workers\<close> on the
  store it leaves answers 200 with the empty list.
\<close>

theorem delete_all_then_list:
  "delete_workers None w = (Sent 200 (Message ''All workers deleted''), w\<lparr>docs := []\<rparr>)
   \<and> get_workers None (snd (delete_workers None w)) = (Sent 200 (Docs []), w\<lparr>docs := []\<rparr>)"
  by (simp add: delete_workers_def Worker_deleteMany_def get_workers_def Worker_find_def)

section \<open>Updates\<close>

lemma by_oid_oid: "by_oid i ds = Some d \<Longrightarrow> oid d = i"
  by (induction ds) (auto split: if_splits)

lemma by_oid_replace_first:
  "oid d' = i \<Longrightarrow> by_oid i ds = Some d \<Longrightarrow> by_oid i (replace_first i d' ds) = Some d'"
  by (induction ds) auto

lemma replace_first_again:
  "oid d' = i \<Longrightarrow> replace_first i d' (replace_first i d' ds) = replace_first i d' ds"
  by (induction ds) auto

lemma replace_first_frame:
  "by_oid i ds = Some d \<Longrightarrow>
   list_all2 (\<lambda>x y. y = x \<or> (x = d \<and> y = d')) ds (replace_first i d' ds)"
  by (induction ds) (auto simp: list_all2_same list.rel_refl)

lemma rm_update:
  "Worker_findByIdAndUpdate (Oid i) (no_fields\<lparr>f_RMPaid := a\<rparr>) None w =
     (case a of
        Uncastable r \<Rightarrow> (Rejected (CastError ''RMPaid'' r), w)
      | _ \<Rightarrow>
        (case by_oid i (docs w) of
           None \<Rightarrow> (Resolved None, w)
         | Some d \<Rightarrow> (Resolved (Some (d\<lparr>RMPaid := put a (RMPaid d)\<rparr>)),
                       w\<lparr>docs := replace_first i (d\<lparr>RMPaid := put a (RMPaid d)\<rparr>) (docs w)\<rparr>)))"
  by (cases a)
     (auto simp: Worker_findByIdAndUpdate_def cast_errors_def no_fields_def apply_update_def
           dest: by_oid_oid split: option.splits)

lemma put_put: "put a (put a s) = put a s"
  by (cases a) auto

lemma updateRMPaid_cases:
  assumes "put_worker_updateRMPaid q body f w = (r, w')"
  shows "(w' = w \<and> (\<exists>e. r = Escaped e))
       \<or> (w' = w \<and> r = Sent 200 NullBody)
       \<or> (\<exists>i d. q = Oid i \<and> f = None \<and> by_oid i (docs w) = Some d
              \<and> (\<forall>t. f_RMPaid body \<noteq> Uncastable t)
              \<and> r = Sent 200 (Doc (d\<lparr>RMPaid := put (f_RMPaid body) (RMPaid d)\<rparr>))
              \<and> w' = w\<lparr>docs := replace_first i (d\<lparr>RMPaid := put (f_RMPaid body) (RMPaid d)\<rparr>) (docs w)\<rparr>)"
proof (cases q)
  case (Malformed t)
  with assms show ?thesis
    by (auto simp: put_worker_updateRMPaid_def Worker_findByIdAndUpdate_def)
next
  case (Oid i)
  show ?thesis
  proof (cases f)
    case (Some m)
    with Oid assms show ?thesis
      by (auto simp: put_worker_updateRMPaid_def Worker_findByIdAndUpdate_def
               split: list.splits)
  next
    case None
    with Oid assms show ?thesis
      by (cases "f_RMPaid body"; cases "by_oid i (docs w)")
         (auto simp: put_worker_updateRMPaid_def rm_update)
  qed
qed

text \<open>
  C4. \<^verbatim>\<open>PUT /worker/:id/updateRMPaid\<close>, for every request and store: each record of the
  store is afterwards either what it was, or it is the addressed record with every field
  but \<open>RMPaid\<close> as before; the key generator is untouched; the same request on the
  resulting store gives the same response and leaves that store as it is; and when the
  record exists and the value casts, the response and the stored record carry the new
  \<open>RMPaid\<close>.
\<close>

theorem updateRMPaid_frame:
  assumes run: "put_worker_updateRMPaid q body f w = (r, w')"
  shows "list_all2 (\<lambda>d d'. d' = d \<or> (q = Oid (oid d) \<and> d' = d\<lparr>RMPaid := RMPaid d'\<rparr>))
           (docs w) (docs w')
       \<and> next_oid w' = next_oid w
       \<and> put_worker_updateRMPaid q body f w' = (r, w')
       \<and> (\<forall>i d v. q = Oid i \<and> f = None \<and> by_oid i (docs w) = Some d
                    \<and> f_RMPaid body = Castable v \<longrightarrow>
             r = Sent 200 (Doc (d\<lparr>RMPaid := Val v\<rparr>))
             \<and> by_oid i (docs w') = Some (d\<lparr>RMPaid := Val v\<rparr>))"
proof -
  let ?a = "f_RMPaid body"
  let ?frame = "\<lambda>d d'. d' = d \<or> (q = Oid (oid d) \<and> d' = d\<lparr>RMPaid := RMPaid d'\<rparr>)"
  have applied: "r = Sent 200 (Doc (d\<lparr>RMPaid := Val v\<rparr>))
                 \<and> by_oid i (docs w') = Some (d\<lparr>RMPaid := Val v\<rparr>)"
    if h: "q = Oid i \<and> f = None \<and> by_oid i (docs w) = Some d \<and> ?a = Castable v" for i d v
  proof -
    from h run have r: "r = Sent 200 (Doc (d\<lparr>RMPaid := Val v\<rparr>))"
      and w': "w' = w\<lparr>docs := replace_first i (d\<lparr>RMPaid := Val v\<rparr>) (docs w)\<rparr>"
      by (auto simp: put_worker_updateRMPaid_def rm_update)
    from h have "oid (d\<lparr>RMPaid := Val v\<rparr>) = i"
      using by_oid_oid [of i "docs w" d] by simp
    with h have "by_oid i (replace_first i (d\<lparr>RMPaid := Val v\<rparr>) (docs w))
                   = Some (d\<lparr>RMPaid := Val v\<rparr>)"
      by (simp add: by_oid_replace_first)
    with r w' show ?thesis by simp
  qed
  from updateRMPaid_cases [OF run]
  consider (same) "w' = w"
    | (set) i d where "q = Oid i" "f = None" "by_oid i (docs w) = Some d"
        "\<forall>t. ?a \<noteq> Uncastable t"
        "r = Sent 200 (Doc (d\<lparr>RMPaid := put ?a (RMPaid d)\<rparr>))"
        "w' = w\<lparr>docs := replace_first i (d\<lparr>RMPaid := put ?a (RMPaid d)\<rparr>) (docs w)\<rparr>"
    by blast
  then have rest: "list_all2 ?frame (docs w) (docs w') \<and> next_oid w' = next_oid w
                   \<and> put_worker_updateRMPaid q body f w' = (r, w')"
  proof cases
    case same
    have "list_all2 ?frame (docs w) (docs w)"
      by (simp add: list.rel_refl)
    with same run show ?thesis by simp
  next
    case set
    let ?d' = "d\<lparr>RMPaid := put ?a (RMPaid d)\<rparr>"
    have oid_d: "oid d = i"
      using set(3) by (rule by_oid_oid)
    then have oid': "oid ?d' = i"
      by simp
    have "list_all2 (\<lambda>x y. y = x \<or> (x = d \<and> y = ?d')) (docs w) (replace_first i ?d' (docs w))"
      using set(3) by (rule replace_first_frame)
    then have "list_all2 ?frame (docs w) (replace_first i ?d' (docs w))"
      by (rule list_all2_mono) (auto simp: set(1) oid_d)
    then have "list_all2 ?frame (docs w) (docs w')"
      by (simp add: set(6))
    moreover have "next_oid w' = next_oid w"
      using set(6) by simp
    moreover have "put_worker_updateRMPaid q body f w' = (r, w')"
      using set oid' by_oid_replace_first [OF oid' set(3)]
      by (cases ?a)
         (simp_all add: put_worker_updateRMPaid_def rm_update replace_first_again)
    ultimately show ?thesis by blast
  qed
  from rest applied show ?thesis by blast
qed

theorem updateRMPaid_frame_witness:
  "put_worker_updateRMPaid (Oid 0) raise150 None roster
     = (Sent 200 (Doc (ana_doc\<lparr>RMPaid := Val 150\<rparr>)),
        \<lparr>docs = [ana_doc\<lparr>RMPaid := Val 150\<rparr>], next_oid = 1\<rparr>)
   \<and> put_worker_updateRMPaid (Oid 0) raise150 None
        \<lparr>docs = [ana_doc\<lparr>RMPaid := Val 150\<rparr>], next_oid = 1\<rparr>
     = (Sent 200 (Doc (ana_doc\<lparr>RMPaid := Val 150\<rparr>)),
        \<lparr>docs = [ana_doc\<lparr>RMPaid := Val 150\<rparr>], next_oid = 1\<rparr>)
   \<and> by_oid 0 [ana_doc\<lparr>RMPaid := Val 150\<rparr>] = Some (ana_doc\<lparr>RMPaid := Val 150\<rparr>)"
proof -
  have run: "put_worker_updateRMPaid (Oid 0) raise150 None roster
     = (Sent 200 (Doc (ana_doc\<lparr>RMPaid := Val 150\<rparr>)),
        \<lparr>docs = [ana_doc\<lparr>RMPaid := Val 150\<rparr>], next_oid = 1\<rparr>)"
    by (simp add: put_worker_updateRMPaid_def rm_update raise150_def roster_def ana_doc_def)
  have pre: "Oid 0 = Oid 0 \<and> (None :: fault) = None \<and> by_oid 0 (docs roster) = Some ana_doc
              \<and> f_RMPaid raise150 = Castable 150"
    by (simp add: roster_def ana_doc_def raise150_def no_fields_def)
  note frame = updateRMPaid_frame [OF run]
  from frame have again: "put_worker_updateRMPaid (Oid 0) raise150 None
        \<lparr>docs = [ana_doc\<lparr>RMPaid := Val 150\<rparr>], next_oid = 1\<rparr>
     = (Sent 200 (Doc (ana_doc\<lparr>RMPaid := Val 150\<rparr>)),
        \<lparr>docs = [ana_doc\<lparr>RMPaid := Val 150\<rparr>], next_oid = 1\<rparr>)"
    by (elim conjE)
  from frame pre
  have "by_oid 0 (docs \<lparr>docs = [ana_doc\<lparr>RMPaid := Val 150\<rparr>], next_oid = 1\<rparr>)
          = Some (ana_doc\<lparr>RMPaid := Val 150\<rparr>)"
    by blast
  then have "by_oid 0 [ana_doc\<lparr>RMPaid := Val 150\<rparr>] = Some (ana_doc\<lparr>RMPaid := Val 150\<rparr>)"
    by simp
  with run again show ?thesis
    by (intro conjI)
qed

section \<open>What a mutation answers\<close>

lemma by_oid_absent: "i \<notin> set (map oid ds) \<Longrightarrow> by_oid i ds = None"
  by (induction ds) auto

lemma by_oid_delete_first:
  "distinct (map oid ds) \<Longrightarrow> by_oid i (delete_first i ds) = None"
  by (induction ds) (auto simp: by_oid_absent)

lemma update_resolved:
  assumes "Worker_findByIdAndUpdate (Oid i) u f w = (Resolved x, w')"
    and "by_oid i (docs w) = Some d"
  shows "\<exists>d'. f_ops u (apply_update u d) = Inr d' \<and> oid d' = i \<and> x = Some d'
              \<and> w' = w\<lparr>docs := replace_first i d' (docs w)\<rparr>"
  using assms
  by (auto simp: Worker_findByIdAndUpdate_def
           split: option.splits list.splits sum.splits if_splits)

lemma apply_update_RMPaid:
  "apply_update (no_fields\<lparr>f_RMPaid := a\<rparr>) d = d\<lparr>RMPaid := put a (RMPaid d)\<rparr>"
  by (simp add: apply_update_def no_fields_def)

lemma f_ops_RMPaid: "f_ops (no_fields\<lparr>f_RMPaid := a\<rparr>) = Inr"
  by (simp add: no_fields_def)

lemma put_reply_body:
  assumes d: "by_oid i (docs w) = Some d"
    and run: "(case Worker_findByIdAndUpdate (Oid i) u f w of
                 (Rejected e, w') \<Rightarrow> (Escaped e, w')
               | (Resolved worker, w') \<Rightarrow> (Sent 200 (json worker), w')) = (Sent s b, w')"
  shows "s = 200 \<and> (\<exists>d'. f_ops u (apply_update u d) = Inr d' \<and> b = Doc d'
                          \<and> by_oid i (docs w') = Some d')"
proof -
  obtain x v where call: "Worker_findByIdAndUpdate (Oid i) u f w = (x, v)"
    by (cases "Worker_findByIdAndUpdate (Oid i) u f w")
  with run obtain y where x: "x = Resolved y" and s: "s = 200" and b: "b = json y" and v: "v = w'"
    by (cases x) auto
  from update_resolved [OF call [unfolded x] d]
  obtain d' where ops: "f_ops u (apply_update u d) = Inr d'" and key: "oid d' = i"
    and y: "y = Some d'" and w': "v = w\<lparr>docs := replace_first i d' (docs w)\<rparr>"
    by blast
  from key d have "by_oid i (replace_first i d' (docs w)) = Some d'"
    by (rule by_oid_replace_first)
  moreover have "docs v = replace_first i d' (docs w)"
    unfolding w' by simp
  ultimately have "by_oid i (docs w') = Some d'"
    using v by simp
  with s b y ops show ?thesis by simp
qed

text \<open>
  C8. For an existing record, a response of \<^verbatim>\<open>PUT /worker/:id\<close> or of
  \<^verbatim>\<open>PUT /worker/:id/updateRMPaid\<close> has status 200 and carries the record the update has
  made (the top-level paths set, then the operators of the body; \<open>RMPaid\<close> alone for the
  second), which is the record the store holds under that key afterwards. A 200 response of
  \<^verbatim>\<open>DELETE /worker/:id\<close> carries the record as it was before the deletion; that record
  has left the collection, and in a store whose identity keys are distinct no record with
  the key remains.
\<close>

theorem mutation_reply_bodies:
  "(by_oid i (docs w) = Some d \<and> put_worker (Oid i) body f w = (Sent s b, w') \<longrightarrow>
      s = 200 \<and> (\<exists>d'. f_ops body (apply_update body d) = Inr d' \<and> b = Doc d'
                       \<and> by_oid i (docs w') = Some d'))
   \<and> (by_oid i (docs w) = Some d \<and> put_worker_updateRMPaid (Oid i) body f w = (Sent s b, w') \<longrightarrow>
      s = 200 \<and> b = Doc (d\<lparr>RMPaid := put (f_RMPaid body) (RMPaid d)\<rparr>)
      \<and> by_oid i (docs w') = Some (d\<lparr>RMPaid := put (f_RMPaid body) (RMPaid d)\<rparr>))
   \<and> (by_oid i (docs w) = Some d \<and> delete_worker (Oid i) f w = (Sent 200 b, w') \<longrightarrow>
      b = Doc d \<and> docs w' = delete_first i (docs w)
      \<and> (distinct (map oid (docs w)) \<longrightarrow> by_oid i (docs w') = None))"
proof -
  have upd: "s = 200 \<and> (\<exists>d'. f_ops body (apply_update body d) = Inr d' \<and> b = Doc d'
                       \<and> by_oid i (docs w') = Some d')"
    if "by_oid i (docs w) = Some d \<and> put_worker (Oid i) body f w = (Sent s b, w')"
    using that put_reply_body [of i w d body f s b w'] by (simp add: put_worker_def)
  have rm: "s = 200 \<and> b = Doc (d\<lparr>RMPaid := put (f_RMPaid body) (RMPaid d)\<rparr>)
      \<and> by_oid i (docs w') = Some (d\<lparr>RMPaid := put (f_RMPaid body) (RMPaid d)\<rparr>)"
    if "by_oid i (docs w) = Some d
          \<and> put_worker_updateRMPaid (Oid i) body f w = (Sent s b, w')"
    using that put_reply_body [of i w d "no_fields\<lparr>f_RMPaid := f_RMPaid body\<rparr>" f s b w']
    by (auto simp: put_worker_updateRMPaid_def apply_update_RMPaid f_ops_RMPaid)
  have del: "b = Doc d \<and> docs w' = delete_first i (docs w)
      \<and> (distinct (map oid (docs w)) \<longrightarrow> by_oid i (docs w') = None)"
    if "by_oid i (docs w) = Some d \<and> delete_worker (Oid i) f w = (Sent 200 b, w')"
    using that
    by (cases f) (auto simp: delete_worker_def Worker_findByIdAndDelete_def by_oid_delete_first)
  from upd rm del show ?thesis by blast
qed

theorem mutation_reply_bodies_witness:
  "put_worker (Oid 0) bonus None roster
     = (Sent 200 (Doc (ana_doc\<lparr>status := Val ''active'', RMPaid := Val 150\<rparr>)),
        \<lparr>docs = [ana_doc\<lparr>status := Val ''active'', RMPaid := Val 150\<rparr>], next_oid = 1\<rparr>)
   \<and> f_ops bonus (apply_update bonus ana_doc)
       = Inr (ana_doc\<lparr>status := Val ''active'', RMPaid := Val 150\<rparr>)
   \<and> put_worker_updateRMPaid (Oid 0) promote None roster
     = (Sent 200 (Doc (ana_doc\<lparr>RMPaid := Val 150\<rparr>)),
        \<lparr>docs = [ana_doc\<lparr>RMPaid := Val 150\<rparr>], next_oid = 1\<rparr>)
   \<and> put (f_RMPaid promote) (RMPaid ana_doc) = Val 150
   \<and> delete_worker (Oid 0) None roster = (Sent 200 (Doc ana_doc), \<lparr>docs = [], next_oid = 1\<rparr>)
   \<and> distinct (map oid (docs roster))
   \<and> by_oid 0 (docs \<lparr>docs = [], next_oid = 1\<rparr>) = None"
proof -
  have d: "by_oid 0 (docs roster) = Some ana_doc"
    by (simp add: roster_def ana_doc_def)
  have 1: "put_worker (Oid 0) bonus None roster
     = (Sent 200 (Doc (ana_doc\<lparr>status := Val ''active'', RMPaid := Val 150\<rparr>)),
        \<lparr>docs = [ana_doc\<lparr>status := Val ''active'', RMPaid := Val 150\<rparr>], next_oid = 1\<rparr>)"
    by (simp add: put_worker_def Worker_findByIdAndUpdate_def cast_errors_def bonus_def
          inc_RMPaid_def no_fields_def roster_def ana_doc_def apply_update_def)
  have 2: "put_worker_updateRMPaid (Oid 0) promote None roster
     = (Sent 200 (Doc (ana_doc\<lparr>RMPaid := Val 150\<rparr>)),
        \<lparr>docs = [ana_doc\<lparr>RMPaid := Val 150\<rparr>], next_oid = 1\<rparr>)"
    by (simp add: put_worker_updateRMPaid_def Worker_findByIdAndUpdate_def cast_errors_def
          promote_def no_fields_def roster_def ana_doc_def apply_update_def)
  have 3: "delete_worker (Oid 0) None roster = (Sent 200 (Doc ana_doc), \<lparr>docs = [], next_oid = 1\<rparr>)"
    by (simp add: delete_worker_def Worker_findByIdAndDelete_def roster_def ana_doc_def)
  have u: "distinct (map oid (docs roster))"
    by (simp add: roster_def)
  from mutation_reply_bodies
         [of 0 roster ana_doc bonus None 200
             "Doc (ana_doc\<lparr>status := Val ''active'', RMPaid := Val 150\<rparr>)"
             "\<lparr>docs = [ana_doc\<lparr>status := Val ''active'', RMPaid := Val 150\<rparr>], next_oid = 1\<rparr>"]
       d 1
  have a: "f_ops bonus (apply_update bonus ana_doc)
             = Inr (ana_doc\<lparr>status := Val ''active'', RMPaid := Val 150\<rparr>)"
    by auto
  from mutation_reply_bodies
         [of 0 roster ana_doc promote None 200 "Doc (ana_doc\<lparr>RMPaid := Val 150\<rparr>)"
             "\<lparr>docs = [ana_doc\<lparr>RMPaid := Val 150\<rparr>], next_oid = 1\<rparr>"]
       d 2
  have "ana_doc\<lparr>RMPaid := Val 150\<rparr> = ana_doc\<lparr>RMPaid := put (f_RMPaid promote) (RMPaid ana_doc)\<rparr>"
    by simp
  then have "RMPaid (ana_doc\<lparr>RMPaid := Val 150\<rparr>)
               = RMPaid (ana_doc\<lparr>RMPaid := put (f_RMPaid promote) (RMPaid ana_doc)\<rparr>)"
    by (rule arg_cong)
  then have b: "put (f_RMPaid promote) (RMPaid ana_doc) = Val 150"
    by simp
  from mutation_reply_bodies
         [of 0 roster ana_doc promote None 200 "Doc ana_doc" "\<lparr>docs = [], next_oid = 1\<rparr>"]
       d 3 u
  have c: "by_oid 0 (docs \<lparr>docs = [], next_oid = 1\<rparr>) = None"
    by blast
  from 1 a 2 b 3 u c show ?thesis
    by (intro conjI)
qed

text \<open>
  C8 as the specification words it (the body of every mutation is the state after the
  mutation, not the one before) fails for delete by id: the body is the record the store
  held before the deletion, not the state of that key afterwards (no record).
\<close>

theorem delete_reply_is_prior_state:
  "fst (delete_worker (Oid 0) None roster) = Sent 200 (json (by_oid 0 (docs roster)))
   \<and> fst (delete_worker (Oid 0) None roster)
       \<noteq> Sent 200 (json (by_oid 0 (docs (snd (delete_worker (Oid 0) None roster)))))"
  by (simp add: delete_worker_def Worker_findByIdAndDelete_def roster_def ana_doc_def)

section \<open>Creating one record\<close>

lemma new_Worker_invalid: "invalid (fst (new_Worker obj w)) = validation_errors obj"
  by (simp add: new_Worker_def split: arg.splits)

lemma new_Worker_docs: "docs (snd (new_Worker obj w)) = docs w"
  by (simp add: new_Worker_def split: arg.splits)

lemma new_Workers_invalid:
  "map invalid (fst (new_Workers body w)) = map validation_errors body"
proof (induction body arbitrary: w)
  case Nil
  show ?case by simp
next
  case (Cons obj objs)
  show ?case
    using Cons.IH [of "snd (new_Worker obj w)"] new_Worker_invalid [of obj w]
    by (simp add: split_beta)
qed

lemma new_Workers_docs: "docs (snd (new_Workers body w)) = docs w"
proof (induction body arbitrary: w)
  case Nil
  show ?case by simp
next
  case (Cons obj objs)
  show ?case
    using Cons.IH [of "snd (new_Worker obj w)"] new_Worker_docs [of obj w]
    by (simp add: split_beta)
qed

lemma new_Workers_length: "length (fst (new_Workers body w)) = length body"
  using new_Workers_invalid [of body w] by (metis length_map)

lemma six_fields_ignores:
  "six_fields (body\<lparr>f_oid := a, f_id := b, f_other := c\<rparr>) = six_fields body"
  by (simp add: six_fields_def)

lemma six_fields_ignores_operators: "six_fields (body\<lparr>f_ops := g\<rparr>) = six_fields body"
  by (simp add: six_fields_def)

lemma post_worker_ignores_operators: "post_worker (body\<lparr>f_ops := g\<rparr>) f w = post_worker body f w"
  by (simp add: post_worker_def six_fields_ignores_operators)

lemma new_Worker_six:
  "new_Worker (six_fields body) w =
     (\<lparr>doc = \<lparr>oid = Some (next_oid w), idN = Unset,
               name = put (f_name body) Unset,
               phoneNumber = put (f_phoneNumber body) Unset,
               status = put (f_status body) Unset,
               passportNumber = put (f_passportNumber body) Unset,
               permitVisaExpiry = put (f_permitVisaExpiry body) Unset,
               RMPaid = put (f_RMPaid body) Unset\<rparr>,
        invalid = validation_errors (six_fields body)\<rparr>,
      w\<lparr>next_oid := Suc (next_oid w)\<rparr>)"
  by (simp add: new_Worker_def six_fields_def no_fields_def)

text \<open>
  C10. \<^verbatim>\<open>POST /worker\<close> reads six keys of the body and nothing else: a body that differs
  in \<^verbatim>\<open>_id\<close>, in \<^verbatim>\<open>id\<close> or in keys outside the schema gives the same response and the
  same store. A created record has the generated identity key, no \<^verbatim>\<open>id\<close>, and the six
  paths as cast from the body; it is the record appended to the store.
\<close>

theorem post_worker_reads_six_fields:
  "post_worker (body\<lparr>f_oid := a, f_id := b, f_other := c\<rparr>) f w = post_worker body f w
   \<and> (\<forall>s d. fst (post_worker body f w) = Sent s (Doc d) \<longrightarrow>
         s = 201
         \<and> d = \<lparr>oid = next_oid w, idN = Unset,
                 name = put (f_name body) Unset,
                 phoneNumber = put (f_phoneNumber body) Unset,
                 status = put (f_status body) Unset,
                 passportNumber = put (f_passportNumber body) Unset,
                 permitVisaExpiry = put (f_permitVisaExpiry body) Unset,
                 RMPaid = put (f_RMPaid body) Unset\<rparr>
         \<and> docs (snd (post_worker body f w)) = docs w @ [d])"
proof -
  have "post_worker (body\<lparr>f_oid := a, f_id := b, f_other := c\<rparr>) f w = post_worker body f w"
    by (simp add: post_worker_def six_fields_ignores)
  moreover have "\<forall>s d. fst (post_worker body f w) = Sent s (Doc d) \<longrightarrow>
         s = 201
         \<and> d = \<lparr>oid = next_oid w, idN = Unset,
                 name = put (f_name body) Unset,
                 phoneNumber = put (f_phoneNumber body) Unset,
                 status = put (f_status body) Unset,
                 passportNumber = put (f_passportNumber body) Unset,
                 permitVisaExpiry = put (f_permitVisaExpiry body) Unset,
                 RMPaid = put (f_RMPaid body) Unset\<rparr>
         \<and> docs (snd (post_worker body f w)) = docs w @ [d]"
    by (auto simp: post_worker_def new_Worker_six save_def prepare_doc_def rekey_def json_doc_def insert_doc_def
             split: option.splits if_splits)
  ultimately show ?thesis by blast
qed

theorem post_worker_reads_six_fields_witness:
  "post_worker ana_with_key None w0 = (Sent 201 (Doc ana_doc), roster)
   \<and> post_worker ana None w0 = (Sent 201 (Doc ana_doc), roster)
   \<and> oid ana_doc = next_oid w0 \<and> idN ana_doc = Unset \<and> docs roster = docs w0 @ [ana_doc]"
proof -
  have run: "post_worker ana None w0 = (Sent 201 (Doc ana_doc), roster)"
    by (simp add: post_worker_def new_Worker_def save_def prepare_doc_def rekey_def json_doc_def insert_doc_def validation_errors_def
          cast_errors_def six_fields_def ana_def no_fields_def w0_def roster_def ana_doc_def)
  note fact = post_worker_reads_six_fields
                [where body = ana and a = "Castable 42" and b = "Castable 7"
                   and c = "[(''nationality'', ''PH'')]" and f = None and w = w0]
  from fact have same: "post_worker ana_with_key None w0 = post_worker ana None w0"
    by (simp add: ana_with_key_def)
  from fact run
  have "ana_doc = \<lparr>oid = next_oid w0, idN = Unset,
                 name = put (f_name ana) Unset,
                 phoneNumber = put (f_phoneNumber ana) Unset,
                 status = put (f_status ana) Unset,
                 passportNumber = put (f_passportNumber ana) Unset,
                 permitVisaExpiry = put (f_permitVisaExpiry ana) Unset,
                 RMPaid = put (f_RMPaid ana) Unset\<rparr>
        \<and> docs roster = docs w0 @ [ana_doc]"
    by simp
  then have "oid ana_doc = next_oid w0 \<and> idN ana_doc = Unset \<and> docs roster = docs w0 @ [ana_doc]"
    by (metis document.select_convs(1) document.select_convs(2))
  with same run show ?thesis by simp
qed

text \<open>
  The first half of C7 holds: an input that fails a cast is answered 400 with the
  validation message, and the collection is as before (only the key generator moved).
  A valid input is accepted when the generated key is new and no stored record lacks
  \<^verbatim>\<open>id\<close>.
\<close>

lemma create_invalid_input:
  assumes "validation_errors (six_fields body) \<noteq> []"
  shows "post_worker body f w =
           (Sent 400 (Message (message (ValidationError (validation_errors (six_fields body))))),
            w\<lparr>next_oid := Suc (next_oid w)\<rparr>)"
  using assms by (simp add: post_worker_def new_Worker_six save_def)

lemma create_accepted:
  assumes "validation_errors (six_fields body) = []"
    and "next_oid w \<notin> set (map oid (docs w))"
    and "None \<notin> set (map (\<lambda>e. index_key (idN e)) (docs w))"
  shows "\<exists>d. post_worker body None w =
           (Sent 201 (Doc d), \<lparr>docs = docs w @ [d], next_oid = Suc (next_oid w)\<rparr>)
           \<and> oid d = next_oid w"
  using assms by (simp add: post_worker_def new_Worker_six save_def prepare_doc_def rekey_def json_doc_def insert_doc_def)

text \<open>
  C7. The specification says every valid input is answered 201 with the created record.
  The handler never sets \<^verbatim>\<open>id\<close>, and the schema's unique index on \<^verbatim>\<open>id\<close> admits one record
  without it: once the store holds a record with no \<^verbatim>\<open>id\<close> (the first record that
  \<^verbatim>\<open>POST /worker\<close> created), every further valid create is answered 400 with the
  duplicate-key message and creates nothing.
\<close>

theorem create_after_keyless_record:
  assumes "validation_errors (six_fields body) = []"
    and "next_oid w \<notin> set (map oid (docs w))"
    and "None \<in> set (map (\<lambda>e. index_key (idN e)) (docs w))"
  shows "post_worker body None w =
           (Sent 400 (Message ''E11000 duplicate key error index: id_1''),
            w\<lparr>next_oid := Suc (next_oid w)\<rparr>)"
  using assms by (simp add: post_worker_def new_Worker_six save_def prepare_doc_def rekey_def json_doc_def insert_doc_def)

theorem create_after_keyless_record_witness:
  "post_worker ana None w0 = (Sent 201 (Doc ana_doc), roster)
   \<and> validation_errors (six_fields bob) = []
   \<and> post_worker bob None roster =
       (Sent 400 (Message ''E11000 duplicate key error index: id_1''),
        \<lparr>docs = [ana_doc], next_oid = 2\<rparr>)"
proof -
  have first: "post_worker ana None w0 = (Sent 201 (Doc ana_doc), roster)"
    by (simp add: post_worker_def new_Worker_def save_def prepare_doc_def rekey_def json_doc_def insert_doc_def validation_errors_def
          cast_errors_def six_fields_def ana_def no_fields_def w0_def roster_def ana_doc_def)
  have v: "validation_errors (six_fields bob) = []"
    by (simp add: validation_errors_def cast_errors_def six_fields_def bob_def no_fields_def)
  have fresh: "next_oid roster \<notin> set (map oid (docs roster))"
    by (simp add: roster_def ana_doc_def)
  have keyless: "None \<in> set (map (\<lambda>e. index_key (idN e)) (docs roster))"
    by (simp add: roster_def ana_doc_def)
  from create_after_keyless_record [OF v fresh keyless]
  have "post_worker bob None roster =
       (Sent 400 (Message ''E11000 duplicate key error index: id_1''),
        \<lparr>docs = [ana_doc], next_oid = 2\<rparr>)"
    by (simp add: roster_def)
  with first v show ?thesis by simp
qed

section \<open>Creating many records\<close>

lemma find_invalid:
  assumes "\<exists>obj \<in> set body. validation_errors obj \<noteq> []"
  shows "\<exists>d. List.find (\<lambda>d. invalid d \<noteq> []) (fst (new_Workers body w)) = Some d \<and> invalid d \<noteq> []"
proof -
  from assms have "\<exists>e \<in> set (map invalid (fst (new_Workers body w))). e \<noteq> []"
    by (simp add: new_Workers_invalid)
  then have "\<exists>d \<in> set (fst (new_Workers body w)). invalid d \<noteq> []"
    by auto
  then have "List.find (\<lambda>d. invalid d \<noteq> []) (fst (new_Workers body w)) \<noteq> None"
    by (auto simp: find_None_iff)
  then obtain d where d: "List.find (\<lambda>d. invalid d \<noteq> []) (fst (new_Workers body w)) = Some d"
    by blast
  then have "invalid d \<noteq> []"
    by (auto simp: find_Some_iff)
  with d show ?thesis by blast
qed

text \<open>
  C6. \<^verbatim>\<open>POST /workers\<close>: when at least one element of the body fails validation, the
  response is one 400 with the validation message of an invalid element, and the collection
  is as before.
\<close>

theorem bulk_create_invalid_element:
  assumes "\<exists>obj \<in> set body. validation_errors obj \<noteq> []"
  shows "\<exists>ps. ps \<noteq> []
           \<and> fst (post_workers body f w) = Sent 400 (Message (message (ValidationError ps)))
           \<and> docs (snd (post_workers body f w)) = docs w"
proof -
  obtain ds w1 where nw: "new_Workers body w = (ds, w1)"
    by (cases "new_Workers body w")
  from find_invalid [OF assms, of w] nw
  obtain d where d: "List.find (\<lambda>d. invalid d \<noteq> []) ds = Some d" and bad: "invalid d \<noteq> []"
    by auto
  from new_Workers_docs [of body w] nw have "docs w1 = docs w"
    by simp
  with nw d bad show ?thesis
    by (auto simp: post_workers_def Worker_insertMany_def)
qed

theorem bulk_create_invalid_element_witness:
  "undated \<in> set [ana, undated] \<and> validation_errors undated = [(''permitVisaExpiry'', ''not-a-date'')]
   \<and> post_workers [ana, undated] None w0
       = (Sent 400 (Message ''Worker validation failed: permitVisaExpiry: Cast failed for value not-a-date; ''),
          \<lparr>docs = [], next_oid = 2\<rparr>)"
proof -
  have v: "validation_errors undated = [(''permitVisaExpiry'', ''not-a-date'')]"
    by (simp add: validation_errors_def cast_errors_def undated_def no_fields_def)
  then have h: "\<exists>obj \<in> set [ana, undated]. validation_errors obj \<noteq> []"
    by simp
  have run: "post_workers [ana, undated] None w0
       = (Sent 400 (Message ''Worker validation failed: permitVisaExpiry: Cast failed for value not-a-date; ''),
          \<lparr>docs = [], next_oid = 2\<rparr>)"
    by (simp add: post_workers_def new_Worker_def Worker_insertMany_def validation_errors_def
          cast_errors_def undated_def ana_def no_fields_def w0_def)
  from bulk_create_invalid_element [OF h, of None w0] v run show ?thesis
    by simp
qed

lemma new_Worker_idN: "idN (doc (fst (new_Worker obj w))) = put (f_id obj) Unset"
  by (simp add: new_Worker_def split: arg.splits)

lemma new_Workers_idN:
  "map (\<lambda>d. idN (doc d)) (fst (new_Workers body w)) = map (\<lambda>obj. put (f_id obj) Unset) body"
proof (induction body arbitrary: w)
  case Nil
  show ?case by simp
next
  case (Cons obj objs)
  show ?case
    using Cons.IH [of "snd (new_Worker obj w)"] new_Worker_idN [of obj w]
    by (simp add: split_beta)
qed

lemma prepare_doc_idN: "idN (fst (prepare_doc m w)) = idN m"
  by (simp add: prepare_doc_def rekey_def split: option.splits)

lemma prepare_doc_docs: "docs (snd (prepare_doc m w)) = docs w"
  by (simp add: prepare_doc_def split: option.splits)

lemma prepare_docs_idN: "map idN (fst (prepare_docs ms w)) = map idN ms"
proof (induction ms arbitrary: w)
  case Nil
  show ?case by simp
next
  case (Cons m ms)
  show ?case
    using Cons.IH [of "snd (prepare_doc m w)"] prepare_doc_idN [of m w]
    by (simp add: split_beta)
qed

lemma prepare_docs_docs: "docs (snd (prepare_docs ms w)) = docs w"
proof (induction ms arbitrary: w)
  case Nil
  show ?case by simp
next
  case (Cons m ms)
  show ?case
    using Cons.IH [of "snd (prepare_doc m w)"] prepare_doc_docs [of m w]
    by (simp add: split_beta)
qed

lemma prepare_docs_length: "length (fst (prepare_docs ms w)) = length ms"
  using prepare_docs_idN [of ms w] by (metis length_map)

lemma insert_ordered_keyless_pair:
  assumes "index_key (idN d1) = None" and "index_key (idN d2) = None"
  shows "\<exists>p stored. insert_ordered (d1 # d2 # rest) ds = (Some (DuplicateKey p), stored)"
  using assms by (simp add: insert_doc_def)

text \<open>
  C5. The specification says that N valid field sets give 201 with N records. Two or more
  valid field sets of which none has an \<^verbatim>\<open>id\<close> are always answered 400 with a duplicate-key
  message: the second insert meets the first under the unique index on \<^verbatim>\<open>id\<close> (or
  meets a stored key). The first element may already have been written.
\<close>

theorem bulk_create_keyless_pair:
  assumes ok: "\<forall>obj \<in> set body. validation_errors obj = [] \<and> index_key (put (f_id obj) Unset) = None"
    and two: "2 \<le> length body"
  shows "\<exists>p. fst (post_workers body None w) = Sent 400 (Message (message (DuplicateKey p)))"
proof -
  obtain ds w1 where nw: "new_Workers body w = (ds, w1)"
    by (cases "new_Workers body w")
  obtain ps w2 where pd: "prepare_docs (map doc ds) w1 = (ps, w2)"
    by (cases "prepare_docs (map doc ds) w1")
  have inv: "map invalid ds = map validation_errors body"
    using new_Workers_invalid [of body w] nw by simp
  have keys: "map (\<lambda>d. idN (doc d)) ds = map (\<lambda>obj. put (f_id obj) Unset) body"
    using new_Workers_idN [of body w] nw by simp
  from inv have len: "length ds = length body"
    by (metis length_map)
  from inv ok have "\<forall>e \<in> set (map invalid ds). e = []"
    by simp
  then have valid: "List.find (\<lambda>d. invalid d \<noteq> []) ds = None"
    by (auto simp: find_None_iff)
  have sent: "map idN ps = map (\<lambda>d. idN (doc d)) ds"
    using prepare_docs_idN [of "map doc ds" w1] pd by (simp add: comp_def)
  with keys ok have "\<forall>k \<in> set (map idN ps). index_key k = None"
    by simp
  then have keyless: "\<forall>p \<in> set ps. index_key (idN p) = None"
    by simp
  from sent len have "length ps = length body"
    by (metis length_map)
  with two obtain p1 p2 rest where ps: "ps = p1 # p2 # rest"
    by (cases ps; cases "tl ps") auto
  with keyless have "index_key (idN p1) = None" and "index_key (idN p2) = None"
    by simp_all
  from insert_ordered_keyless_pair [OF this, of rest "docs w2"]
  obtain p stored where "insert_ordered ps (docs w2) = (Some (DuplicateKey p), stored)"
    by (auto simp: ps)
  moreover from two len have "ds \<noteq> []"
    by auto
  ultimately show ?thesis
    using nw pd valid by (auto simp: post_workers_def Worker_insertMany_def)
qed

theorem bulk_create_keyless_pair_witness:
  "post_workers [ana, bob] None w0 =
     (Sent 400 (Message ''E11000 duplicate key error index: id_1''),
      \<lparr>docs = [ana_doc], next_oid = 2\<rparr>)
   \<and> validation_errors ana = [] \<and> validation_errors bob = []"
proof -
  have v: "validation_errors ana = []" "validation_errors bob = []"
    by (simp_all add: validation_errors_def cast_errors_def ana_def bob_def no_fields_def)
  have k: "index_key (put (f_id ana) Unset) = None" "index_key (put (f_id bob) Unset) = None"
    by (simp_all add: ana_def bob_def no_fields_def)
  from v k have ok: "\<forall>obj \<in> set [ana, bob].
      validation_errors obj = [] \<and> index_key (put (f_id obj) Unset) = None"
    by simp
  have two: "2 \<le> length [ana, bob]"
    by simp
  have run: "post_workers [ana, bob] None w0 =
     (Sent 400 (Message ''E11000 duplicate key error index: id_1''),
      \<lparr>docs = [ana_doc], next_oid = 2\<rparr>)"
    by (simp add: post_workers_def new_Worker_def Worker_insertMany_def validation_errors_def
          cast_errors_def prepare_doc_def rekey_def insert_doc_def ana_def bob_def no_fields_def
          w0_def ana_doc_def)
  from bulk_create_keyless_pair [OF ok two, of w0] run v show ?thesis
    by simp
qed

text \<open>
  What does hold of a 201 response of \<^verbatim>\<open>POST /workers\<close>: it carries as many documents as
  the body had elements, the collection has gained as many records, and the identity keys
  of those records are pairwise distinct and new.
\<close>

lemma insert_ordered_stored:
  "insert_ordered new ds = (None, stored) \<Longrightarrow>
   stored = ds @ new \<and> distinct (map oid new) \<and> set (map oid new) \<inter> set (map oid ds) = {}"
proof (induction new arbitrary: ds)
  case Nil
  then show ?case by simp
next
  case (Cons d new)
  from Cons.prems obtain ds' where ins: "insert_doc d ds = Inr ds'"
    and rest: "insert_ordered new ds' = (None, stored)"
    by (auto split: sum.splits)
  from ins have ds': "ds' = ds @ [d]" and new_d: "oid d \<notin> set (map oid ds)"
    by (auto simp: insert_doc_def split: if_splits)
  from Cons.IH [OF rest] ds' new_d show ?case
    by auto
qed

lemma bulk_created:
  assumes "fst (post_workers body f w) = Sent 201 b"
  shows "\<exists>ms ps. b = Array (map json_doc ms) \<and> length ms = length body
              \<and> length ps = length body \<and> distinct (map oid ps)
              \<and> set (map oid ps) \<inter> set (map oid (docs w)) = {}
              \<and> docs (snd (post_workers body f w)) = docs w @ ps"
proof -
  obtain drafts w1 where nw: "new_Workers body w = (drafts, w1)"
    by (cases "new_Workers body w")
  have len: "length drafts = length body"
    using new_Workers_length [of body w] nw by simp
  have dw: "docs w1 = docs w"
    using new_Workers_docs [of body w] nw by simp
  have b: "b = Array (map json_doc (map doc drafts))"
    using assms nw
    by (auto simp: post_workers_def comp_def split: prod.splits outcome.splits)
  show ?thesis
  proof (cases "drafts = []")
    case True
    with assms nw len dw b have "b = Array (map json_doc []) \<and> length ([] :: unsaved list) = length body
        \<and> length ([] :: worker list) = length body \<and> distinct (map oid ([] :: worker list))
        \<and> set (map oid ([] :: worker list)) \<inter> set (map oid (docs w)) = {}
        \<and> docs (snd (post_workers body f w)) = docs w @ []"
      by (auto simp: post_workers_def Worker_insertMany_def)
    then show ?thesis by blast
  next
    case False
    obtain ps w2 where pd: "prepare_docs (map doc drafts) w1 = (ps, w2)"
      by (cases "prepare_docs (map doc drafts) w1")
    have plen: "length ps = length body"
      using prepare_docs_length [of "map doc drafts" w1] pd len by simp
    have pdocs: "docs w2 = docs w"
      using prepare_docs_docs [of "map doc drafts" w1] pd dw by simp
    from assms nw pd False obtain stored where
      ins: "insert_ordered ps (docs w2) = (None, stored)"
      and w': "snd (post_workers body f w) = w2\<lparr>docs := stored\<rparr>"
      by (auto simp: post_workers_def Worker_insertMany_def
               split: option.splits prod.splits if_splits)
    from insert_ordered_stored [OF ins] pdocs w'
    have "distinct (map oid ps) \<and> set (map oid ps) \<inter> set (map oid (docs w)) = {}
          \<and> docs (snd (post_workers body f w)) = docs w @ ps"
      by simp
    with b len plen show ?thesis
      by (intro exI [of _ "map doc drafts"] exI [of _ ps]) simp
  qed
qed


text \<open>
  An element whose \<^verbatim>\<open>_id\<close> is \<^verbatim>\<open>null\<close> passes validation: the record is stored under
  a key the driver generates, and the response shows the document in memory, with its null.
\<close>

lemma bulk_create_null_id:
  "validation_errors dee = []
   \<and> post_workers [dee] None w0 =
       (Sent 201 (Array [DocNullId \<lparr>oid = (), idN = Val 3, name = Val ''Dee'', phoneNumber = Unset,
                           status = Unset, passportNumber = Unset, permitVisaExpiry = Unset,
                           RMPaid = Unset\<rparr>]),
        \<lparr>docs = [\<lparr>oid = 0, idN = Val 3, name = Val ''Dee'', phoneNumber = Unset,
                  status = Unset, passportNumber = Unset, permitVisaExpiry = Unset,
                  RMPaid = Unset\<rparr>],
          next_oid = 1\<rparr>)"
  by (simp add: post_workers_def new_Worker_def Worker_insertMany_def validation_errors_def
        cast_errors_def prepare_doc_def rekey_def json_doc_def insert_doc_def dee_def
        no_fields_def w0_def)

section \<open>Identity keys stay distinct\<close>

text \<open>
  No handler makes two records share an identity key: a store whose keys are distinct
  (the empty store is one) is left with distinct keys by every request.
\<close>

lemma replace_first_oids: "oid d' = i \<Longrightarrow> map oid (replace_first i d' ds) = map oid ds"
  by (induction ds) auto

lemma delete_first_oids: "set (map oid (delete_first i ds)) \<subseteq> set (map oid ds)"
  by (induction ds) auto

lemma delete_first_distinct:
  "distinct (map oid ds) \<Longrightarrow> distinct (map oid (delete_first i ds))"
proof (induction ds)
  case Nil
  then show ?case by simp
next
  case (Cons d ds)
  then show ?case
    using delete_first_oids [of i ds] by auto
qed

lemma insert_doc_distinct:
  "insert_doc d ds = Inr ds' \<Longrightarrow> distinct (map oid ds) \<Longrightarrow> distinct (map oid ds')"
  by (auto simp: insert_doc_def split: if_splits)

lemma insert_ordered_distinct:
  "distinct (map oid ds) \<Longrightarrow> distinct (map oid (snd (insert_ordered new ds)))"
proof (induction new arbitrary: ds)
  case Nil
  then show ?case by simp
next
  case (Cons d new)
  show ?case
  proof (cases "insert_doc d ds")
    case (Inl e)
    with Cons.prems show ?thesis by simp
  next
    case (Inr ds')
    with Cons.prems have "distinct (map oid ds')"
      by (auto dest: insert_doc_distinct)
    with Inr Cons.IH [of ds'] show ?thesis by simp
  qed
qed

lemma reads_keep_store:
  "snd (get_workers f w) = w" "snd (get_worker q f w) = w"
  by (auto simp: get_workers_def get_worker_def Worker_find_def Worker_findById_def
           split: option.splits param.splits)

lemma update_keeps_keys:
  "map oid (docs (snd (Worker_findByIdAndUpdate q u f w))) = map oid (docs w)"
  by (auto simp: Worker_findByIdAndUpdate_def replace_first_oids
           split: param.splits option.splits list.splits sum.splits)

lemma puts_keep_keys:
  "map oid (docs (snd (put_worker q body f w))) = map oid (docs w)"
  "map oid (docs (snd (put_worker_updateRMPaid q body f w))) = map oid (docs w)"
proof -
  show "map oid (docs (snd (put_worker q body f w))) = map oid (docs w)"
    using update_keeps_keys [of q body f w]
    by (auto simp: put_worker_def split: prod.splits outcome.splits)
  show "map oid (docs (snd (put_worker_updateRMPaid q body f w))) = map oid (docs w)"
    using update_keeps_keys [of q "no_fields\<lparr>f_RMPaid := f_RMPaid body\<rparr>" f w]
    by (auto simp: put_worker_updateRMPaid_def split: prod.splits outcome.splits)
qed

lemma deletes_keep_distinct:
  assumes "distinct (map oid (docs w))"
  shows "distinct (map oid (docs (snd (delete_worker q f w))))"
    and "distinct (map oid (docs (snd (delete_workers f w))))"
  using assms
  by (auto simp: delete_worker_def delete_workers_def Worker_findByIdAndDelete_def
        Worker_deleteMany_def delete_first_distinct
      split: param.splits option.splits)

lemma post_worker_keeps_distinct:
  assumes "distinct (map oid (docs w))"
  shows "distinct (map oid (docs (snd (post_worker body f w))))"
proof -
  obtain d w1 where nw: "new_Worker (six_fields body) w = (d, w1)"
    by (cases "new_Worker (six_fields body) w")
  obtain p w2 where pd: "prepare_doc (doc d) w1 = (p, w2)"
    by (cases "prepare_doc (doc d) w1")
  have "docs w1 = docs w"
    using new_Worker_docs [of "six_fields body" w] nw by simp
  moreover have "docs w2 = docs w1"
    using prepare_doc_docs [of "doc d" w1] pd by simp
  ultimately have "distinct (map oid (docs w1))" and "distinct (map oid (docs w2))"
    using assms by simp_all
  with nw pd show ?thesis
    by (auto simp: post_worker_def save_def
             split: option.splits sum.splits dest: insert_doc_distinct)
qed

lemma post_workers_keeps_distinct:
  assumes "distinct (map oid (docs w))"
  shows "distinct (map oid (docs (snd (post_workers body f w))))"
proof -
  obtain ds w1 where nw: "new_Workers body w = (ds, w1)"
    by (cases "new_Workers body w")
  obtain ps w2 where pd: "prepare_docs (map doc ds) w1 = (ps, w2)"
    by (cases "prepare_docs (map doc ds) w1")
  have w1: "docs w1 = docs w"
    using new_Workers_docs [of body w] nw by simp
  have w2: "docs w2 = docs w1"
    using prepare_docs_docs [of "map doc ds" w1] pd by simp
  from assms w1 w2 have "distinct (map oid (snd (insert_ordered ps (docs w2))))"
    by (simp add: insert_ordered_distinct)
  with assms nw pd w1 show ?thesis
    by (auto simp: post_workers_def Worker_insertMany_def
             split: option.splits prod.splits)
qed

end
